theory Spec2Isabelle
  imports Complex_Main
begin

section \<open>Python values and errors\<close>

text \<open>
  The dialogs of \<^verbatim>\<open>main_controls_dlg_windows.py\<close> compute with Python numbers. Floats are
  idealised as the reals (rounding is not modelled); what the idealisation must not lose is
  the division by zero, so the quotient is the checked \<open>py_truediv\<close>: a zero divisor is the
  error value. Python numbers raise ZeroDivisionError there; numpy scalars, which the image
  registration returns, yield inf or nan instead. In both cases no finite quotient exists.
\<close>

datatype py_error = ZeroDivisionError | AttributeError | TypeError

definition py_truediv :: "real \<Rightarrow> real \<Rightarrow> py_error + real" where
  "py_truediv a b = (if b = 0 then Inl ZeroDivisionError else Inr (a / b))"

section \<open>Stage calibration dialog\<close>

record stage_params =
  scale_x :: real
  scale_y :: real
  rot_x :: real
  rot_y :: real

text \<open>
  The attributes and widgets of \<^verbatim>\<open>StageCalibrationDlg\<close> that the calibration reads or
  writes. \<open>spinBox_shift\<close> and \<open>spinBox_pixelsize\<close> are integer spin boxes; their ranges
  are declared in a form file that is not part of the sources, so any integer is admitted.
  \<open>stage_spinboxes\<close> stands for the four double spin boxes that hold the parameters
  the dialog saves on accept.
\<close>

record calib_dlg =
  x_shift_vector :: "real \<times> real"
  y_shift_vector :: "real \<times> real"
  calc_exception :: "string option"
  busy :: bool
  spinBox_shift :: int
  spinBox_pixelsize :: int
  stage_spinboxes :: stage_params

text \<open>
  Lines 555-568 of \<^verbatim>\<open>calculate_stage_parameters\<close>: the four values, in the order in which
  the source evaluates them. The first failing division ends the computation.
\<close>

definition stage_parameter_values ::
  "real \<times> real \<Rightarrow> real \<times> real \<Rightarrow> int \<Rightarrow> int \<Rightarrow> py_error + stage_params" where
  "stage_parameter_values xv yv shift pixel_size =
     (let delta_xx = \<bar>fst xv\<bar>; delta_xy = \<bar>snd xv\<bar>;
          delta_yx = \<bar>fst yv\<bar>; delta_yy = \<bar>snd yv\<bar>
      in case py_truediv delta_xy delta_xx of
           Inl e \<Rightarrow> Inl e
         | Inr qx \<Rightarrow>
        (case py_truediv delta_yx delta_yy of
           Inl e \<Rightarrow> Inl e
         | Inr qy \<Rightarrow>
        (case py_truediv (of_int shift)
                (sqrt (delta_xx ^ 2 + delta_xy ^ 2) * of_int pixel_size / 1000) of
           Inl e \<Rightarrow> Inl e
         | Inr sx \<Rightarrow>
        (case py_truediv (of_int shift)
                (sqrt (delta_yx ^ 2 + delta_yy ^ 2) * of_int pixel_size / 1000) of
           Inl e \<Rightarrow> Inl e
         | Inr sy \<Rightarrow>
             Inr \<lparr>scale_x = sx, scale_y = sy, rot_x = arctan qx, rot_y = arctan qy\<rparr>))))"

text \<open>
  What a calibration attempt ends with: the warning box of the manual path
  (\<open>InputRejected\<close>), the message box that proposes the computed values (\<open>Proposed\<close>),
  or the warning box that shows the exception of the registration (\<open>ExceptionReported\<close>).
\<close>

datatype calib_outcome =
    InputRejected calib_dlg
  | Proposed stage_params calib_dlg
  | ExceptionReported string calib_dlg

text \<open>
  \<^verbatim>\<open>calculate_stage_parameters\<close>. An exception of the arithmetic leaves the method before
  \<open>busy\<close> is cleared. \<open>user_choice\<close> is the button of the message box: on Ok the
  values go into the spin boxes.
\<close>

definition calculate_stage_parameters :: "bool \<Rightarrow> calib_dlg \<Rightarrow> py_error + calib_outcome" where
  "calculate_stage_parameters user_choice d =
     (case stage_parameter_values (x_shift_vector d) (y_shift_vector d)
             (spinBox_shift d) (spinBox_pixelsize d) of
        Inl e \<Rightarrow> Inl e
      | Inr p \<Rightarrow>
          (let d1 = d\<lparr>busy := False\<rparr>
           in Inr (Proposed p (if user_choice then d1\<lparr>stage_spinboxes := p\<rparr> else d1))))"

text \<open>
  \<^verbatim>\<open>calculate_stage_parameters_from_user_input\<close>: the eight pixel positions come from
  integer spin boxes. A zero primary distance is answered with the warning box and nothing
  is computed.
\<close>

definition calculate_stage_parameters_from_user_input ::
  "int \<Rightarrow> int \<Rightarrow> int \<Rightarrow> int \<Rightarrow> int \<Rightarrow> int \<Rightarrow> int \<Rightarrow> int \<Rightarrow> bool \<Rightarrow> calib_dlg
     \<Rightarrow> py_error + calib_outcome" where
  "calculate_stage_parameters_from_user_input x1x x1y x2x x2y y1x y1y y2x y2y user_choice d =
     (let delta_xx = \<bar>x1x - x2x\<bar>; delta_xy = \<bar>x1y - x2y\<bar>;
          delta_yx = \<bar>y1x - y2x\<bar>; delta_yy = \<bar>y1y - y2y\<bar>
      in if delta_xx = 0 \<or> delta_yy = 0 then Inr (InputRejected d)
         else calculate_stage_parameters user_choice
                (d\<lparr>x_shift_vector := (of_int delta_xx, of_int delta_xy),
                   y_shift_vector := (of_int delta_yx, of_int delta_yy)\<rparr>))"

text \<open>
  \<^verbatim>\<open>process_results\<close>, the slot that runs when the acquisition thread has finished: without
  an exception of the registration it goes straight to \<open>calculate_stage_parameters\<close>.
\<close>

definition process_results :: "bool \<Rightarrow> calib_dlg \<Rightarrow> py_error + calib_outcome" where
  "process_results user_choice d =
     (case calc_exception d of
        None \<Rightarrow> calculate_stage_parameters user_choice d
      | Some msg \<Rightarrow> Inr (ExceptionReported msg (d\<lparr>busy := False\<rparr>)))"

text \<open>
  The microscope and the stage during \<^verbatim>\<open>stage_calibration_acq_thread\<close>: the stage is taken
  to reach the position it is sent to. \<open>commands\<close> lists the calls in the order in which
  they are made; an \<open>AcquireFrame\<close> entry also notes where the stage stands at that moment.
  File names are given without the base directory.
\<close>

datatype sem_command =
    ApplyFrameSettings nat int real
  | GetXY
  | AcquireFrame string "real \<times> real"
  | MoveToXY "real \<times> real"

record sem_stage =
  stage_xy :: "real \<times> real"
  commands :: "sem_command list"

definition apply_frame_settings :: "nat \<Rightarrow> int \<Rightarrow> real \<Rightarrow> sem_stage \<Rightarrow> sem_stage" where
  "apply_frame_settings sel px dwell r =
     r\<lparr>commands := commands r @ [ApplyFrameSettings sel px dwell]\<rparr>"

definition get_xy :: "sem_stage \<Rightarrow> (real \<times> real) \<times> sem_stage" where
  "get_xy r = (stage_xy r, r\<lparr>commands := commands r @ [GetXY]\<rparr>)"

definition acquire_frame :: "string \<Rightarrow> sem_stage \<Rightarrow> sem_stage" where
  "acquire_frame name r = r\<lparr>commands := commands r @ [AcquireFrame name (stage_xy r)]\<rparr>"

definition move_to_xy :: "real \<times> real \<Rightarrow> sem_stage \<Rightarrow> sem_stage" where
  "move_to_xy p r = r\<lparr>stage_xy := p, commands := commands r @ [MoveToXY p]\<rparr>"

text \<open>
  \<^verbatim>\<open>stage_calibration_acq_thread\<close>. \<open>store_res\<close> is the length of the microscope's list
  of frame sizes, \<open>dwell_time\<close> the selected dwell time, and \<open>registration\<close> what the image
  registration does with the three images: an exception (its text) or the two shift vectors.
\<close>

definition stage_calibration_acq_thread ::
  "nat \<Rightarrow> real \<Rightarrow> string + ((real \<times> real) \<times> (real \<times> real)) \<Rightarrow> sem_stage \<times> calib_dlg
     \<Rightarrow> sem_stage \<times> calib_dlg" where
  "stage_calibration_acq_thread store_res dwell_time registration rd =
     (let r = fst rd; d = snd rd;
          shift = spinBox_shift d;
          pixel_size = spinBox_pixelsize d;
          frame_size_selector = (if store_res > 4 then 4 else 3);
          r1 = apply_frame_settings frame_size_selector pixel_size dwell_time r;
          (start, r2) = get_xy r1;
          start_x = fst start; start_y = snd start;
          r3 = acquire_frame ''start.tif'' r2;
          r4 = move_to_xy (start_x + of_int shift, start_y) r3;
          r5 = acquire_frame ''shift_x.tif'' r4;
          r6 = move_to_xy (start_x, start_y + of_int shift) r5;
          r7 = acquire_frame ''shift_y.tif'' r6;
          r8 = move_to_xy (start_x, start_y) r7;
          d1 = d\<lparr>calc_exception := None\<rparr>
      in case registration of
           Inl e \<Rightarrow> (r8, d1\<lparr>calc_exception := Some e\<rparr>)
         | Inr (x_shift, y_shift) \<Rightarrow>
             (r8, d1\<lparr>x_shift_vector := x_shift, y_shift_vector := y_shift\<rparr>))"

section \<open>The microtome as the dialogs see it\<close>

text \<open>
  The microtome driver is an external collaborator. The dialogs call it and then read its
  error register. A run of the model is told, for every call, the value found in the register
  when the call has returned (0: no error); \<open>reset_error_state\<close> writes 0. \<open>events\<close>
  records, in order, the calls made, the log entries, the signals and the message boxes.
\<close>

datatype microtome_call =
    GetStageZ
  | NearKnife
  | ClearKnife
  | DoFullApproachCut
  | MoveStageToZ real
  | MoveStageToZNoSafeMode real
  | MoveStageToXY real real
  | ResetErrorState

datatype message_box =
    ClearingKnifeFailed
  | ApproachFinished nat real
  | ZPositionMismatch
  | ApproachAborted nat real
  | ErrorMovingBack
  | MotorTestAborted real
  | MotorTestComplete nat nat real

datatype event =
    Call microtome_call
  | Log string
  | LogMoveToNewZ real
  | LogCutting int
  | MainWindow string
  | ProgressTrigger
  | FinishTrigger
  | Sleep
  | Box message_box

record microtome_state =
  error_state :: int
  events :: "event list"

definition emit :: "event \<Rightarrow> 'a microtome_state_scheme \<Rightarrow> 'a microtome_state_scheme" where
  "emit e m = m\<lparr>events := events m @ [e]\<rparr>"

definition hw_call ::
  "microtome_call \<Rightarrow> int \<Rightarrow> 'a microtome_state_scheme \<Rightarrow> 'a microtome_state_scheme" where
  "hw_call c register m = m\<lparr>error_state := register, events := events m @ [Call c]\<rparr>"

definition reset_error_state :: "'a microtome_state_scheme \<Rightarrow> 'a microtome_state_scheme" where
  "reset_error_state m = m\<lparr>error_state := 0, events := events m @ [Call ResetErrorState]\<rparr>"

section \<open>Approach dialog\<close>

record approach_dlg = microtome_state +
  slice_counter :: nat
  max_slices :: nat
  thickness :: int
  aborted :: bool
  z_mismatch :: bool
  approach_in_progress :: bool

text \<open>
  What the environment contributes before the loop: the two spin boxes, the result of the
  first Z read and of the second one (used only when the first is unusable), each with the
  register found afterwards, the register after \<open>near_knife\<close>, and whether the operator
  presses Abort before the knife is moved or before the loop is entered.
\<close>

record approach_setup =
  spinBox_numberSlices :: nat
  spinBox_thickness :: int
  z_first :: "real option"
  err_first :: int
  z_retry :: "real option"
  err_retry :: int
  err_near_knife :: int
  abort_before_knife :: bool
  abort_before_loop :: bool

text \<open>
  What the environment contributes to one cycle: the register after the Z move, the register
  after the cut and the wait, and whether the operator presses Abort while the cycle runs
  (\<^verbatim>\<open>abort_approach\<close> only sets the flag that the loop reads at its next check).
\<close>

record cycle_input =
  err_move :: int
  err_cut :: int
  abort_requested :: bool

datatype flow = Break | Continue

definition unusable_z :: "real option \<Rightarrow> bool" where
  "unusable_z z = (case z of None \<Rightarrow> True | Some v \<Rightarrow> v < 0)"

text \<open>
  The body of the while loop of \<^verbatim>\<open>approach_thread\<close> (lines 2328-2358). Adding the
  thickness to a Z position that is None is the TypeError of Python.
\<close>

definition approach_cycle ::
  "cycle_input \<Rightarrow> real option \<Rightarrow> approach_dlg \<Rightarrow> py_error + (flow \<times> real option \<times> approach_dlg)" where
  "approach_cycle i z_position s =
     (case z_position of
        None \<Rightarrow> Inl TypeError
      | Some z0 \<Rightarrow>
          (let z = z0 + of_int (thickness s) / 1000;
               s1 = emit (LogMoveToNewZ z) s;
               s2 = hw_call (MoveStageToZ z) (err_move i) s1;
               s3 = emit (MainWindow ''UPDATE Z'') s2
           in if error_state s3 > 0
              then Inr (Break, Some z,
                     reset_error_state
                       ((emit (Log ''CTRL: Z stage problem detected. Approach aborted.'') s3)
                          \<lparr>aborted := True\<rparr>))
              else
                (let s4 = emit (LogCutting (thickness s3)) s3;
                     s5 = hw_call DoFullApproachCut (err_cut i) s4;
                     s6 = emit Sleep s5
                 in if error_state s6 > 0
                    then Inr (Break, Some z,
                           reset_error_state
                             ((emit (Log ''CTRL: Cutting problem detected. Approach aborted.'') s6)
                                \<lparr>aborted := True\<rparr>))
                    else
                      (let s7 = emit (Log ''3VIEW: Approach cut completed.'') s6;
                           s8 = s7\<lparr>slice_counter := slice_counter s7 + 1\<rparr>;
                           s9 = emit ProgressTrigger s8
                       in Inr (Continue, Some z,
                            s9\<lparr>aborted := aborted s9 \<or> abort_requested i\<rparr>)))))"

text \<open>
  The while loop. The cycle that runs when the counter stands at \<open>n\<close> takes the input
  \<open>env n\<close>: a cycle either raises the counter by one or leaves the loop.
\<close>

function approach_loop ::
  "(nat \<Rightarrow> cycle_input) \<Rightarrow> real option \<Rightarrow> approach_dlg \<Rightarrow> py_error + approach_dlg" where
  "approach_loop env z_position s =
     (if slice_counter s < max_slices s \<and> \<not> aborted s
      then (case approach_cycle (env (slice_counter s)) z_position s of
              Inl e \<Rightarrow> Inl e
            | Inr (Break, z, s') \<Rightarrow> Inr s'
            | Inr (Continue, z, s') \<Rightarrow> approach_loop env z s')
      else Inr s)"
  by pat_completeness auto
termination
  apply (relation "measure (\<lambda>(env, z, s). max_slices s - slice_counter s)")
   apply simp
  apply (auto simp: approach_cycle_def emit_def hw_call_def reset_error_state_def Let_def
              split: option.splits if_splits)
  done

declare approach_loop.simps [simp del]

text \<open>
  \<^verbatim>\<open>approach_thread\<close> up to its loop (lines 2292-2325): the reads of the Z position, the
  check for error 206, and the move of the knife to the near position. The result is the
  local variable \<open>z_position\<close> and the dialog as the loop finds it.
\<close>

definition approach_prepare :: "approach_setup \<Rightarrow> approach_dlg \<Rightarrow> real option \<times> approach_dlg" where
  "approach_prepare prep d =
     (let s0 = emit ProgressTrigger
                 (d\<lparr>approach_in_progress := True, aborted := False, z_mismatch := False,
                    slice_counter := 0, max_slices := spinBox_numberSlices prep,
                    thickness := spinBox_thickness prep\<rparr>);
          s1 = hw_call GetStageZ (err_first prep) s0;
          zs = (if unusable_z (z_first prep)
                then (let t = hw_call GetStageZ (err_retry prep) s1
                      in if unusable_z (z_retry prep)
                         then (z_retry prep,
                               (reset_error_state
                                  (emit (Log ''CTRL: Error reading Z position. Approach aborted.'')
                                     t))
                                 \<lparr>aborted := True\<rparr>)
                         else (z_retry prep, t))
                else (z_first prep, s1));
          z_position = fst zs; s2 = snd zs;
          s3 = (if error_state s2 = 206
                then emit (Log ''CTRL: Z position mismatch. Approach aborted.'')
                       ((reset_error_state s2)\<lparr>z_mismatch := True, aborted := True\<rparr>)
                else s2);
          s4 = emit (MainWindow ''UPDATE Z'') s3;
          s5 = s4\<lparr>aborted := aborted s4 \<or> abort_before_knife prep\<rparr>;
          s6 = (if \<not> aborted s5
                then (let t = emit (Log ''3VIEW: Moving knife to near position.'')
                                (hw_call NearKnife (err_near_knife prep) s5)
                      in if error_state t > 0
                         then reset_error_state
                                ((emit (Log
                                   ''CTRL: Error moving knife to near position. Approach aborted.'')
                                    t)
                                   \<lparr>aborted := True\<rparr>)
                         else t)
                else s5);
          s7 = s6\<lparr>aborted := aborted s6 \<or> abort_before_loop prep\<rparr>
      in (z_position, s7))"

text \<open>
  \<^verbatim>\<open>approach_thread\<close>: the preparation, the loop, and the signal that starts
  \<^verbatim>\<open>finish_approach\<close>.
\<close>

definition approach_thread ::
  "approach_setup \<Rightarrow> (nat \<Rightarrow> cycle_input) \<Rightarrow> approach_dlg \<Rightarrow> py_error + approach_dlg" where
  "approach_thread prep env d =
     (case approach_loop env (fst (approach_prepare prep d)) (snd (approach_prepare prep d)) of
        Inl e \<Rightarrow> Inl e
      | Inr s \<Rightarrow> Inr (emit FinishTrigger s))"

text \<open>
  The setups with which the thread reaches its loop unaborted: a usable Z position from the
  first read or from the second, no error 206 in the register after it, no error from the
  knife, and no Abort in the meantime.
\<close>

definition enters_loop :: "approach_setup \<Rightarrow> bool" where
  "enters_loop prep =
     ((if unusable_z (z_first prep)
       then \<not> unusable_z (z_retry prep) \<and> err_retry prep \<noteq> 206
       else err_first prep \<noteq> 206)
      \<and> \<not> abort_before_knife prep \<and> err_near_knife prep \<le> 0
      \<and> \<not> abort_before_loop prep)"

text \<open>
  The message box with which \<^verbatim>\<open>finish_approach\<close> reports how the run ended, as a function
  of the flags and counters the thread has left.
\<close>

definition outcome_box :: "approach_dlg \<Rightarrow> message_box" where
  "outcome_box s =
     (if \<not> aborted s
      then ApproachFinished (max_slices s) (of_int (int (max_slices s) * thickness s) / 1000)
      else if z_mismatch s then ZPositionMismatch
      else ApproachAborted (slice_counter s)
             (of_int (int (slice_counter s) * thickness s) / 1000))"

text \<open>\<^verbatim>\<open>finish_approach\<close>; \<open>err_clear\<close> is the register found after \<open>clear_knife\<close>.\<close>

definition finish_approach :: "int \<Rightarrow> approach_dlg \<Rightarrow> approach_dlg" where
  "finish_approach err_clear s =
     (let s1 = hw_call ClearKnife err_clear (emit (Log ''3VIEW: Clearing knife.'') s);
          s2 = (if error_state s1 > 0
                then emit (Box ClearingKnifeFailed)
                       (reset_error_state (emit (Log ''CTRL: Error clearing knife.'') s1))
                else s1);
          s3 = emit (MainWindow ''STATUS IDLE'') s2;
          s4 = (if \<not> aborted s3
                then (emit (Box (outcome_box s3)) s3)\<lparr>slice_counter := 0\<rparr>
                else if z_mismatch s3
                then emit (Box (outcome_box s3)) (reset_error_state s3)
                else (emit (Box (outcome_box s3)) s3)\<lparr>slice_counter := 0\<rparr>)
      in s4\<lparr>approach_in_progress := False\<rparr>)"

text \<open>A whole approach: the worker thread, then the slot its finish signal triggers.\<close>

definition approach_run ::
  "approach_setup \<Rightarrow> (nat \<Rightarrow> cycle_input) \<Rightarrow> int \<Rightarrow> approach_dlg \<Rightarrow> py_error + approach_dlg" where
  "approach_run prep env err_clear d =
     (case approach_thread prep env d of
        Inl e \<Rightarrow> Inl e
      | Inr s \<Rightarrow> Inr (finish_approach err_clear s))"

text \<open>What the operator is left with: counter, flags and the box that reports the run.\<close>

definition approach_summary :: "approach_dlg \<Rightarrow> nat \<times> bool \<times> bool \<times> message_box" where
  "approach_summary s = (slice_counter s, aborted s, z_mismatch s, outcome_box s)"

definition new_events :: "'a microtome_state_scheme \<Rightarrow> 'b microtome_state_scheme \<Rightarrow> event list" where
  "new_events before after = drop (length (events before)) (events after)"

fun shown_boxes :: "event list \<Rightarrow> message_box list" where
  "shown_boxes [] = []"
| "shown_boxes (Box b # es) = b # shown_boxes es"
| "shown_boxes (e # es) = shown_boxes es"

section \<open>Motor test dialog\<close>

text \<open>
  The lines of \<^verbatim>\<open>motor_test_log.txt\<close>: a position (written with three decimals), the
  outcome of the iteration, and the closing line with the number of errors.
\<close>

datatype log_line =
    Position real real real
  | ErrorDuringXYMove string
  | ErrorDuringZMove string
  | OK
  | NumberOfErrors nat

record motor_test_dlg = microtome_state +
  test_in_progress :: bool
  test_aborted :: bool
  start_z :: real
  number_tests :: nat
  number_errors :: nat
  logfile :: "log_line list"

text \<open>
  What the environment contributes to one iteration: the values of \<open>random()\<close>, the error
  register and the error text after the XY move and after the Z move, and what the
  presentation thread does to the flags before the loop checks \<open>test_in_progress\<close> again:
  \<^verbatim>\<open>update_progress\<close> finds the time elapsed, or the operator presses Abort
  (\<^verbatim>\<open>abort_random_walk\<close>).
\<close>

record walk_input =
  rand_x :: real
  rand_y :: real
  rand_z :: real
  err_xy :: int
  info_xy :: string
  err_z :: int
  info_z :: string
  time_elapsed :: bool
  abort_clicked :: bool

text \<open>Lines 2778-2795: the next position from the current one.\<close>

definition next_position ::
  "nat \<Rightarrow> real \<Rightarrow> walk_input \<Rightarrow> real \<times> real \<times> real \<Rightarrow> real \<times> real \<times> real" where
  "next_position tests z_start i cur =
     (let dist = (if tests mod 10 = 0 then 300 else 50);
          x = fst cur + (rand_x i - 0.5) * dist;
          y = fst (snd cur) + (rand_y i - 0.5) * dist;
          z = (if tests mod 2 = 0 then snd (snd cur) + (rand_z i - 0.5) * 0.2
               else snd (snd cur) + 0.025);
          z1 = (if z < 0 then 0 else z)
      in if \<bar>x\<bar> > 600 \<or> \<bar>y\<bar> > 600 \<or> z1 > 600 then (0, 0, z_start) else (x, y, z1))"

text \<open>One pass through the while loop of \<^verbatim>\<open>random_walk_thread\<close> (lines 2777-2818).\<close>

definition walk_step ::
  "walk_input \<Rightarrow> (real \<times> real \<times> real) \<times> motor_test_dlg
     \<Rightarrow> (real \<times> real \<times> real) \<times> motor_test_dlg" where
  "walk_step i ps =
     (let s = snd ps;
          cur = next_position (number_tests s) (start_z s) i (fst ps);
          current_x = fst cur; current_y = fst (snd cur); current_z = snd (snd cur);
          s1 = s\<lparr>logfile := logfile s @ [Position current_x current_y current_z]\<rparr>;
          s2 = hw_call (MoveStageToXY current_x current_y) (err_xy i) s1;
          s3 = (if error_state s2 > 0
                then reset_error_state
                       (s2\<lparr>number_errors := number_errors s2 + 1,
                           logfile := logfile s2 @ [ErrorDuringXYMove (info_xy i)]\<rparr>)
                else (let t = hw_call (MoveStageToZNoSafeMode current_z) (err_z i) s2
                      in if error_state t > 0
                         then reset_error_state
                                (t\<lparr>number_errors := number_errors t + 1,
                                   logfile := logfile t @ [ErrorDuringZMove (info_z i)]\<rparr>)
                         else t\<lparr>logfile := logfile t @ [OK]\<rparr>));
          s4 = emit ProgressTrigger (s3\<lparr>number_tests := number_tests s3 + 1\<rparr>);
          s5 = (if abort_clicked i then s4\<lparr>test_aborted := True, test_in_progress := False\<rparr>
                else if time_elapsed i then s4\<lparr>test_in_progress := False\<rparr>
                else s4)
      in (cur, s5))"

text \<open>
  The while loop, over the inputs of the iterations that the environment supplies. The loop
  stops when it finds \<open>test_in_progress\<close> cleared; a list that ends before that describes
  the run up to that moment.
\<close>

fun random_walk_loop ::
  "walk_input list \<Rightarrow> (real \<times> real \<times> real) \<times> motor_test_dlg
     \<Rightarrow> (real \<times> real \<times> real) \<times> motor_test_dlg" where
  "random_walk_loop [] ps = ps"
| "random_walk_loop (i # rest) ps =
     (if test_in_progress (snd ps) then random_walk_loop rest (walk_step i ps) else ps)"

text \<open>The state with which \<^verbatim>\<open>random_walk_thread\<close> enters its loop.\<close>

definition random_walk_start :: "motor_test_dlg \<Rightarrow> (real \<times> real \<times> real) \<times> motor_test_dlg" where
  "random_walk_start d =
     (let s0 = emit ProgressTrigger (d\<lparr>test_in_progress := True\<rparr>);
          s1 = s0\<lparr>number_tests := 0, number_errors := 0, logfile := []\<rparr>
      in ((0, 0, start_z s1), s1))"

text \<open>
  \<^verbatim>\<open>random_walk_thread\<close>: it returns once the loop has found the flag cleared, and then
  writes the closing line and signals the end. None: the inputs end while the test is
  still in progress.
\<close>

definition random_walk_thread :: "walk_input list \<Rightarrow> motor_test_dlg \<Rightarrow> motor_test_dlg option" where
  "random_walk_thread inputs d =
     (let s = snd (random_walk_loop inputs (random_walk_start d))
      in if test_in_progress s then None
         else Some (emit FinishTrigger
                      (s\<lparr>logfile := logfile s @ [NumberOfErrors (number_errors s)]\<rparr>)))"

text \<open>\<^verbatim>\<open>test_finished\<close>; \<open>err_back\<close> is the register found after the move back.\<close>

definition test_finished :: "int \<Rightarrow> motor_test_dlg \<Rightarrow> motor_test_dlg" where
  "test_finished err_back s =
     (let s1 = emit (Log ''3VIEW: Moving back to starting z position.'')
                 (emit (Log ''3VIEW: Motor test finished.'') s);
          s2 = hw_call (MoveStageToZNoSafeMode (start_z s1)) err_back s1;
          s3 = (if error_state s2 > 0 then emit (Box ErrorMovingBack) (reset_error_state s2)
                else s2);
          s4 = (if test_aborted s3 then emit (Box (MotorTestAborted (start_z s3))) s3
                else emit (Box (MotorTestComplete (number_tests s3) (number_errors s3)
                                  (start_z s3))) s3)
      in s4\<lparr>test_in_progress := False\<rparr>)"

text \<open>The bounds of the stage, for a logged line and for a call of the microtome.\<close>

fun line_in_range :: "log_line \<Rightarrow> bool" where
  "line_in_range (Position x y z) = (\<bar>x\<bar> \<le> 600 \<and> \<bar>y\<bar> \<le> 600 \<and> 0 \<le> z \<and> z \<le> 600)"
| "line_in_range l = True"

fun event_in_range :: "event \<Rightarrow> bool" where
  "event_in_range (Call (MoveStageToXY x y)) = (\<bar>x\<bar> \<le> 600 \<and> \<bar>y\<bar> \<le> 600)"
| "event_in_range (Call (MoveStageToZ z)) = (0 \<le> z \<and> z \<le> 600)"
| "event_in_range (Call (MoveStageToZNoSafeMode z)) = (0 \<le> z \<and> z \<le> 600)"
| "event_in_range e = True"

fun is_error_line :: "log_line \<Rightarrow> bool" where
  "is_error_line (ErrorDuringXYMove info) = True"
| "is_error_line (ErrorDuringZMove info) = True"
| "is_error_line l = False"

fun is_outcome_line :: "log_line \<Rightarrow> bool" where
  "is_outcome_line (ErrorDuringXYMove info) = True"
| "is_outcome_line (ErrorDuringZMove info) = True"
| "is_outcome_line OK = True"
| "is_outcome_line l = False"

fun is_z_move :: "event \<Rightarrow> bool" where
  "is_z_move (Call (MoveStageToZ z)) = True"
| "is_z_move (Call (MoveStageToZNoSafeMode z)) = True"
| "is_z_move e = False"

section \<open>Closing the dialogs\<close>

text \<open>
  The handlers read a flag of the dialog object by name. An instance has the attributes its
  methods have assigned; reading another name is the AttributeError of Python. The
  dictionaries below hold the boolean attributes of each class: \<open>StageCalibrationDlg\<close>
  assigns \<open>busy\<close>; \<open>ApproachDlg\<close> assigns \<open>approach_in_progress\<close>, \<open>aborted\<close> and
  \<open>z_mismatch\<close>; \<open>MotorTestDlg\<close> assigns \<open>test_in_progress\<close> and \<open>aborted\<close>.
\<close>

type_synonym attrs = "string \<rightharpoonup> bool"

definition getattr :: "attrs \<Rightarrow> string \<Rightarrow> py_error + bool" where
  "getattr a name = (case a name of None \<Rightarrow> Inl AttributeError | Some v \<Rightarrow> Inr v)"

datatype close_event = EventAccept | EventIgnore

datatype dialog_action = SuperAccept | SuperReject | NoAction

definition StageCalibrationDlg_attrs :: "calib_dlg \<Rightarrow> attrs" where
  "StageCalibrationDlg_attrs d = [''busy'' \<mapsto> busy d]"

definition ApproachDlg_attrs :: "approach_dlg \<Rightarrow> attrs" where
  "ApproachDlg_attrs d =
     [''approach_in_progress'' \<mapsto> approach_in_progress d, ''aborted'' \<mapsto> aborted d,
      ''z_mismatch'' \<mapsto> z_mismatch d]"

definition MotorTestDlg_attrs :: "motor_test_dlg \<Rightarrow> attrs" where
  "MotorTestDlg_attrs d =
     [''test_in_progress'' \<mapsto> test_in_progress d, ''aborted'' \<mapsto> test_aborted d]"

definition StageCalibrationDlg_accept :: "calib_dlg \<Rightarrow> py_error + dialog_action" where
  "StageCalibrationDlg_accept d =
     (case getattr (StageCalibrationDlg_attrs d) ''busy'' of
        Inl e \<Rightarrow> Inl e
      | Inr b \<Rightarrow> Inr (if \<not> b then SuperAccept else NoAction))"

definition StageCalibrationDlg_reject :: "calib_dlg \<Rightarrow> py_error + dialog_action" where
  "StageCalibrationDlg_reject d =
     (case getattr (StageCalibrationDlg_attrs d) ''busy'' of
        Inl e \<Rightarrow> Inl e
      | Inr b \<Rightarrow> Inr (if \<not> b then SuperReject else NoAction))"

definition StageCalibrationDlg_closeEvent :: "calib_dlg \<Rightarrow> py_error + close_event" where
  "StageCalibrationDlg_closeEvent d =
     (case getattr (StageCalibrationDlg_attrs d) ''busy'' of
        Inl e \<Rightarrow> Inl e
      | Inr b \<Rightarrow> Inr (if \<not> b then EventAccept else EventIgnore))"

definition ApproachDlg_closeEvent :: "approach_dlg \<Rightarrow> py_error + close_event" where
  "ApproachDlg_closeEvent d =
     (case getattr (ApproachDlg_attrs d) ''approach_in_progress'' of
        Inl e \<Rightarrow> Inl e
      | Inr b \<Rightarrow> Inr (if \<not> b then EventAccept else EventIgnore))"

definition ApproachDlg_accept :: "approach_dlg \<Rightarrow> py_error + dialog_action" where
  "ApproachDlg_accept d =
     (case getattr (ApproachDlg_attrs d) ''approach_in_progress'' of
        Inl e \<Rightarrow> Inl e
      | Inr b \<Rightarrow> Inr (if \<not> b then SuperAccept else NoAction))"

definition MotorTestDlg_closeEvent :: "motor_test_dlg \<Rightarrow> py_error + close_event" where
  "MotorTestDlg_closeEvent d =
     (case getattr (MotorTestDlg_attrs d) ''test_in_progress'' of
        Inl e \<Rightarrow> Inl e
      | Inr b \<Rightarrow> Inr (if \<not> b then EventAccept else EventIgnore))"

text \<open>Line 2835: the handler of the motor test reads \<open>approach_in_progress\<close>.\<close>

definition MotorTestDlg_accept :: "motor_test_dlg \<Rightarrow> py_error + dialog_action" where
  "MotorTestDlg_accept d =
     (case getattr (MotorTestDlg_attrs d) ''approach_in_progress'' of
        Inl e \<Rightarrow> Inl e
      | Inr b \<Rightarrow> Inr (if \<not> b then SuperAccept else NoAction))"

section \<open>Sample inputs\<close>

text \<open>
  A calibration dialog after an automatic acquisition: shift vectors \<open>(3, 4)\<close> and
  \<open>(4, 3)\<close> pixels, a stage move of 10 and a pixel size of 10.
\<close>

definition sample_calibration :: calib_dlg where
  "sample_calibration =
     \<lparr>x_shift_vector = (3, 4), y_shift_vector = (4, 3), calc_exception = None,
      busy = True, spinBox_shift = 10, spinBox_pixelsize = 10,
      stage_spinboxes = \<lparr>scale_x = 1, scale_y = 1, rot_x = 0, rot_y = 0\<rparr>\<rparr>"

text \<open>
  An approach of five slices of 50 nm from Z = 10, and a run of it in which the register
  shows error 206 after the Z move of the third cycle.
\<close>

definition sample_approach :: approach_dlg where
  "sample_approach =
     \<lparr>error_state = 0, events = [], slice_counter = 0, max_slices = 5, thickness = 0,
      aborted = False, z_mismatch = False, approach_in_progress = False\<rparr>"

definition sample_setup :: approach_setup where
  "sample_setup =
     \<lparr>spinBox_numberSlices = 5, spinBox_thickness = 50, z_first = Some 10, err_first = 0,
      z_retry = None, err_retry = 0, err_near_knife = 0, abort_before_knife = False,
      abort_before_loop = False\<rparr>"

definition fault_206_in_cycle_3 :: "nat \<Rightarrow> cycle_input" where
  "fault_206_in_cycle_3 n =
     \<lparr>err_move = (if n = 2 then 206 else 0), err_cut = 0, abort_requested = False\<rparr>"

text \<open>
  A motor test that starts at Z = 100 and runs three iterations: one without error, one with
  an error of the XY move, and one with an error of the Z move, after which the time is up.
\<close>

definition sample_motor_test :: motor_test_dlg where
  "sample_motor_test =
     \<lparr>error_state = 0, events = [], test_in_progress = False, test_aborted = False,
      start_z = 100, number_tests = 0, number_errors = 0, logfile = []\<rparr>"

definition sample_ok :: walk_input where
  "sample_ok =
     \<lparr>rand_x = 0.9, rand_y = 0.1, rand_z = 0.5, err_xy = 0, info_xy = [], err_z = 0,
      info_z = [], time_elapsed = False, abort_clicked = False\<rparr>"

definition sample_xy_fault :: walk_input where
  "sample_xy_fault = sample_ok\<lparr>err_xy := 301, info_xy := ''XY move failed''\<rparr>"

definition sample_z_fault :: walk_input where
  "sample_z_fault = sample_ok\<lparr>err_z := 305, info_z := ''Z move failed'', time_elapsed := True\<rparr>"

definition sample_walk :: "walk_input list" where
  "sample_walk = [sample_ok, sample_xy_fault, sample_z_fault]"

section \<open>Calibration: the computed parameters\<close>

lemma sqrt_sum_squares_nonzero: "a \<noteq> (0::real) \<Longrightarrow> sqrt (\<bar>a\<bar> ^ 2 + \<bar>b\<bar> ^ 2) \<noteq> 0"
  by (simp add: power2_eq_square add_nonneg_eq_0_iff)

lemma stage_parameter_values_nonzero:
  assumes "fst xv \<noteq> 0" and "snd yv \<noteq> 0" and "pixel_size \<noteq> 0"
  shows "stage_parameter_values xv yv shift pixel_size =
           Inr \<lparr>scale_x = of_int shift /
                            (sqrt (\<bar>fst xv\<bar> ^ 2 + \<bar>snd xv\<bar> ^ 2) * of_int pixel_size / 1000),
                scale_y = of_int shift /
                            (sqrt (\<bar>fst yv\<bar> ^ 2 + \<bar>snd yv\<bar> ^ 2) * of_int pixel_size / 1000),
                rot_x = arctan (\<bar>snd xv\<bar> / \<bar>fst xv\<bar>),
                rot_y = arctan (\<bar>fst yv\<bar> / \<bar>snd yv\<bar>)\<rparr>"
proof -
  have nx: "sqrt (\<bar>fst xv\<bar> ^ 2 + \<bar>snd xv\<bar> ^ 2) \<noteq> 0"
    using assms(1) by (rule sqrt_sum_squares_nonzero)
  have ny: "sqrt (\<bar>fst yv\<bar> ^ 2 + \<bar>snd yv\<bar> ^ 2) \<noteq> 0"
    using assms(2) sqrt_sum_squares_nonzero [of "snd yv" "fst yv"] by (simp add: add.commute)
  show ?thesis
    using assms nx ny by (simp add: stage_parameter_values_def py_truediv_def Let_def)
qed

text \<open>
  C1, as the code has it. When the primary components of both shift vectors (the X component
  of the X shift, the Y component of the Y shift) are nonzero and the pixel size is nonzero,
  \<open>calculate_stage_parameters\<close> proposes exactly
  \<open>rot_x = atan(|xy| / |xx|)\<close>, \<open>rot_y = atan(|yx| / |yy|)\<close>,
  \<open>scale_x = shift / (sqrt(xx\<^sup>2 + xy\<^sup>2) * pixel_size / 1000)\<close> and
  \<open>scale_y = shift / (sqrt(yx\<^sup>2 + yy\<^sup>2) * pixel_size / 1000)\<close>, clears \<open>busy\<close>, and
  writes the values into the spin boxes when the operator confirms.
\<close>

theorem calculate_stage_parameters_formula:
  assumes "fst (x_shift_vector d) \<noteq> 0" and "snd (y_shift_vector d) \<noteq> 0"
    and "spinBox_pixelsize d \<noteq> 0"
  shows "calculate_stage_parameters user_choice d =
           (let p = \<lparr>scale_x = of_int (spinBox_shift d) /
                       (sqrt (\<bar>fst (x_shift_vector d)\<bar> ^ 2 + \<bar>snd (x_shift_vector d)\<bar> ^ 2)
                          * of_int (spinBox_pixelsize d) / 1000),
                     scale_y = of_int (spinBox_shift d) /
                       (sqrt (\<bar>fst (y_shift_vector d)\<bar> ^ 2 + \<bar>snd (y_shift_vector d)\<bar> ^ 2)
                          * of_int (spinBox_pixelsize d) / 1000),
                     rot_x = arctan (\<bar>snd (x_shift_vector d)\<bar> / \<bar>fst (x_shift_vector d)\<bar>),
                     rot_y = arctan (\<bar>fst (y_shift_vector d)\<bar> / \<bar>snd (y_shift_vector d)\<bar>)\<rparr>
            in Inr (Proposed p (if user_choice then d\<lparr>busy := False, stage_spinboxes := p\<rparr>
                                else d\<lparr>busy := False\<rparr>)))"
  using stage_parameter_values_nonzero [OF assms, of "spinBox_shift d"]
  by (simp add: calculate_stage_parameters_def Let_def)

theorem calculate_stage_parameters_formula_witness:
  "fst (x_shift_vector sample_calibration) \<noteq> 0 \<and>
   snd (y_shift_vector sample_calibration) \<noteq> 0 \<and>
   spinBox_pixelsize sample_calibration \<noteq> 0 \<and>
   calculate_stage_parameters False sample_calibration =
     Inr (Proposed
            \<lparr>scale_x = 200, scale_y = 200, rot_x = arctan (4 / 3), rot_y = arctan (4 / 3)\<rparr>
            (sample_calibration\<lparr>busy := False\<rparr>))"
  using calculate_stage_parameters_formula [of sample_calibration False]
  by (simp add: sample_calibration_def)

text \<open>
  C1 as stated does not hold for every input with nonzero primary components: with a pixel
  size of 0 the divisor of the scale factors is zero, and the method raises instead of
  returning.
\<close>

theorem calculate_stage_parameters_zero_pixel_size:
  "fst (x_shift_vector (sample_calibration\<lparr>spinBox_pixelsize := 0\<rparr>)) \<noteq> 0 \<and>
   snd (y_shift_vector (sample_calibration\<lparr>spinBox_pixelsize := 0\<rparr>)) \<noteq> 0 \<and>
   calculate_stage_parameters False (sample_calibration\<lparr>spinBox_pixelsize := 0\<rparr>)
     = Inl ZeroDivisionError"
  by (simp add: sample_calibration_def calculate_stage_parameters_def
        stage_parameter_values_def py_truediv_def Let_def)

text \<open>
  C9. The computation is a function of its inputs, and doubling the stage move and the pixel
  size together does not change its result: the same scale factors (and angles) where it
  returns, the same error where it raises. By \<open>stage_parameter_values_nonzero\<close> it
  returns whenever the primary components and the pixel size are nonzero.
\<close>

theorem stage_parameter_values_doubling:
  "stage_parameter_values xv yv (2 * shift) (2 * pixel_size) =
     stage_parameter_values xv yv shift pixel_size"
  by (simp add: stage_parameter_values_def py_truediv_def Let_def mult.commute)

section \<open>Calibration: degenerate shifts\<close>

lemma manual_input_zero_rejected:
  "x1x = x2x \<or> y1y = y2y \<Longrightarrow>
     calculate_stage_parameters_from_user_input x1x x1y x2x x2y y1x y1y y2x y2y c d =
       Inr (InputRejected d)"
  by (auto simp: calculate_stage_parameters_from_user_input_def Let_def)

text \<open>
  C2. The manual path rejects a zero primary distance before anything is computed, but the
  automatic path does not: when the registration returns an X shift whose X component is 0,
  \<open>process_results\<close> goes on to divide by it. The same numbers entered by hand are
  rejected.
\<close>

theorem process_results_zero_shift:
  "process_results c (sample_calibration\<lparr>x_shift_vector := (0, 4)\<rparr>) = Inl ZeroDivisionError \<and>
   calculate_stage_parameters_from_user_input 7 0 7 4 0 0 4 3 c sample_calibration =
     Inr (InputRejected sample_calibration)"
  by (simp add: sample_calibration_def process_results_def calculate_stage_parameters_def
        stage_parameter_values_def py_truediv_def Let_def
        calculate_stage_parameters_from_user_input_def)

section \<open>Calibration: the acquisition sequence\<close>

text \<open>
  C7. After the frame settings are applied, the acquisition thread reads the starting
  position, takes the reference image there, moves to \<open>(x + shift, y)\<close>, takes the X-shift
  image, moves to \<open>(x, y + shift)\<close> (from the starting position, not from the X-shifted
  one), takes the Y-shift image, and moves back to \<open>(x, y)\<close>; it makes no other call, whether
  the registration succeeds or not.
\<close>

theorem stage_calibration_acq_thread_sequence:
  "commands (fst (stage_calibration_acq_thread store_res dwell reg (r, d))) =
     commands r @
       [ApplyFrameSettings (if store_res > 4 then 4 else 3) (spinBox_pixelsize d) dwell,
        GetXY,
        AcquireFrame ''start.tif'' (stage_xy r),
        MoveToXY (fst (stage_xy r) + of_int (spinBox_shift d), snd (stage_xy r)),
        AcquireFrame ''shift_x.tif''
          (fst (stage_xy r) + of_int (spinBox_shift d), snd (stage_xy r)),
        MoveToXY (fst (stage_xy r), snd (stage_xy r) + of_int (spinBox_shift d)),
        AcquireFrame ''shift_y.tif''
          (fst (stage_xy r), snd (stage_xy r) + of_int (spinBox_shift d)),
        MoveToXY (stage_xy r)]
   \<and> stage_xy (fst (stage_calibration_acq_thread store_res dwell reg (r, d))) = stage_xy r"
proof -
  have chain: "fst (stage_calibration_acq_thread store_res dwell reg (r, d)) =
      move_to_xy (fst (stage_xy r), snd (stage_xy r))
        (acquire_frame ''shift_y.tif''
          (move_to_xy (fst (stage_xy r), snd (stage_xy r) + of_int (spinBox_shift d))
            (acquire_frame ''shift_x.tif''
              (move_to_xy (fst (stage_xy r) + of_int (spinBox_shift d), snd (stage_xy r))
                (acquire_frame ''start.tif''
                  (snd (get_xy
                    (apply_frame_settings (if store_res > 4 then 4 else 3)
                       (spinBox_pixelsize d) dwell r))))))))"
    by (cases reg)
       (simp_all add: stage_calibration_acq_thread_def Let_def split_def get_xy_def
          apply_frame_settings_def)
  show ?thesis
    unfolding chain
    by (simp add: apply_frame_settings_def get_xy_def acquire_frame_def move_to_xy_def)
qed

section \<open>Closing a dialog while it runs\<close>

lemma close_guards:
  "StageCalibrationDlg_accept d = Inr (if busy d then NoAction else SuperAccept)"
  "StageCalibrationDlg_reject d = Inr (if busy d then NoAction else SuperReject)"
  "StageCalibrationDlg_closeEvent d = Inr (if busy d then EventIgnore else EventAccept)"
  "ApproachDlg_accept a = Inr (if approach_in_progress a then NoAction else SuperAccept)"
  "ApproachDlg_closeEvent a = Inr (if approach_in_progress a then EventIgnore else EventAccept)"
  "MotorTestDlg_closeEvent m = Inr (if test_in_progress m then EventIgnore else EventAccept)"
  by (simp_all add: StageCalibrationDlg_accept_def StageCalibrationDlg_reject_def
        StageCalibrationDlg_closeEvent_def ApproachDlg_accept_def ApproachDlg_closeEvent_def
        MotorTestDlg_closeEvent_def StageCalibrationDlg_attrs_def ApproachDlg_attrs_def
        MotorTestDlg_attrs_def getattr_def)

text \<open>
  C6. The calibration and approach dialogs, and the close event of the motor test, are
  guarded by the flag of their own run (\<open>close_guards\<close>). The accept handler of the motor
  test reads \<open>approach_in_progress\<close>, which no method of that class assigns: it raises
  whether a test runs or not, so it does not proceed normally when no run is in progress.
\<close>

theorem MotorTestDlg_accept_raises: "MotorTestDlg_accept d = Inl AttributeError"
  by (simp add: MotorTestDlg_accept_def MotorTestDlg_attrs_def getattr_def)

section \<open>Motor test: bounds and error accounting\<close>

lemma next_position_in_range:
  assumes "0 \<le> zs" and "zs \<le> 600"
  shows "\<bar>fst (next_position t zs i cur)\<bar> \<le> 600 \<and> \<bar>fst (snd (next_position t zs i cur))\<bar> \<le> 600
     \<and> 0 \<le> snd (snd (next_position t zs i cur)) \<and> snd (snd (next_position t zs i cur)) \<le> 600"
  using assms by (auto simp: next_position_def Let_def)

lemma next_position_clamp:
  "next_position t zs i cur =
     (let dist = (if t mod 10 = 0 then 300 else 50);
          x = fst cur + (rand_x i - 0.5) * dist;
          y = fst (snd cur) + (rand_y i - 0.5) * dist;
          z = max 0 (snd (snd cur) + (if t mod 2 = 0 then (rand_z i - 0.5) * 0.2 else 0.025))
      in if \<bar>x\<bar> \<le> 600 \<and> \<bar>y\<bar> \<le> 600 \<and> z \<le> 600 then (x, y, z) else (0, 0, zs))"
  by (auto simp: next_position_def Let_def max_def)

lemma walk_step_start_z: "start_z (snd (walk_step i ps)) = start_z (snd ps)"
  by (simp add: walk_step_def Let_def hw_call_def reset_error_state_def emit_def)

lemma walk_step_logfile:
  "logfile (snd (walk_step i ps)) =
     logfile (snd ps) @
       [Position (fst (next_position (number_tests (snd ps)) (start_z (snd ps)) i (fst ps)))
                 (fst (snd (next_position (number_tests (snd ps)) (start_z (snd ps)) i (fst ps))))
                 (snd (snd (next_position (number_tests (snd ps)) (start_z (snd ps)) i (fst ps)))),
        if err_xy i > 0 then ErrorDuringXYMove (info_xy i)
        else if err_z i > 0 then ErrorDuringZMove (info_z i) else OK]"
  by (simp add: walk_step_def Let_def hw_call_def reset_error_state_def emit_def)

lemma walk_step_number_errors:
  "number_errors (snd (walk_step i ps)) =
     number_errors (snd ps) + (if err_xy i > 0 \<or> err_z i > 0 then 1 else 0)"
  by (simp add: walk_step_def Let_def hw_call_def reset_error_state_def emit_def)

lemma walk_step_events:
  "events (snd (walk_step i ps)) =
     events (snd ps) @
       (let cur = next_position (number_tests (snd ps)) (start_z (snd ps)) i (fst ps)
        in Call (MoveStageToXY (fst cur) (fst (snd cur))) #
           (if err_xy i > 0 then [Call ResetErrorState]
            else Call (MoveStageToZNoSafeMode (snd (snd cur))) #
                 (if err_z i > 0 then [Call ResetErrorState] else [])) @
           [ProgressTrigger])"
  by (simp add: walk_step_def Let_def hw_call_def reset_error_state_def emit_def)

lemma walk_step_test_in_progress:
  "test_in_progress (snd (walk_step i ps)) =
     (test_in_progress (snd ps) \<and> \<not> abort_clicked i \<and> \<not> time_elapsed i)"
  by (simp add: walk_step_def Let_def hw_call_def reset_error_state_def emit_def)


lemma walk_step_events_in_range:
  assumes "0 \<le> start_z (snd ps)" and "start_z (snd ps) \<le> 600"
  shows "\<exists>es. events (snd (walk_step i ps)) = events (snd ps) @ es \<and> list_all event_in_range es"
  using next_position_in_range [OF assms, of "number_tests (snd ps)" i "fst ps"]
  by (simp add: walk_step_events Let_def)

lemma walk_step_line_in_range:
  assumes "0 \<le> start_z (snd ps)" and "start_z (snd ps) \<le> 600"
    and "list_all line_in_range (logfile (snd ps))"
  shows "list_all line_in_range (logfile (snd (walk_step i ps)))"
  using assms(3) next_position_in_range [OF assms(1,2), of "number_tests (snd ps)" i "fst ps"]
  by (simp add: walk_step_logfile)

lemma random_walk_loop_in_range:
  assumes "0 \<le> start_z (snd ps)" and "start_z (snd ps) \<le> 600"
    and "list_all line_in_range (logfile (snd ps))"
  shows "start_z (snd (random_walk_loop inputs ps)) = start_z (snd ps)
     \<and> list_all line_in_range (logfile (snd (random_walk_loop inputs ps)))
     \<and> (\<exists>es. events (snd (random_walk_loop inputs ps)) = events (snd ps) @ es
            \<and> list_all event_in_range es)"
  using assms
proof (induction inputs arbitrary: ps)
  case Nil
  then show ?case by simp
next
  case (Cons i rest)
  show ?case
  proof (cases "test_in_progress (snd ps)")
    case False
    with Cons.prems show ?thesis by simp
  next
    case True
    have z: "start_z (snd (walk_step i ps)) = start_z (snd ps)"
      by (rule walk_step_start_z)
    have l: "list_all line_in_range (logfile (snd (walk_step i ps)))"
      using Cons.prems by (rule walk_step_line_in_range)
    obtain es where es: "events (snd (walk_step i ps)) = events (snd ps) @ es"
        "list_all event_in_range es"
      using walk_step_events_in_range [OF Cons.prems(1,2)] by blast
    from Cons.IH [of "walk_step i ps"] Cons.prems z l
    obtain es' where ih: "start_z (snd (random_walk_loop rest (walk_step i ps))) = start_z (snd ps)"
        "list_all line_in_range (logfile (snd (random_walk_loop rest (walk_step i ps))))"
        "events (snd (random_walk_loop rest (walk_step i ps))) = events (snd (walk_step i ps)) @ es'"
        "list_all event_in_range es'"
      by auto
    have "events (snd (random_walk_loop rest (walk_step i ps))) = events (snd ps) @ (es @ es')"
      using ih(3) es(1) by simp
    moreover have "list_all event_in_range (es @ es')"
      using es(2) ih(4) by simp
    ultimately show ?thesis
      using True ih(1,2) by auto
  qed
qed

lemma random_walk_start_facts:
  "start_z (snd (random_walk_start d)) = start_z d"
  "logfile (snd (random_walk_start d)) = []"
  "events (snd (random_walk_start d)) = events d @ [ProgressTrigger]"
  "number_errors (snd (random_walk_start d)) = 0"
  "test_in_progress (snd (random_walk_start d))"
  by (simp_all add: random_walk_start_def Let_def emit_def)

lemma new_events_append: "events s' = events s @ es \<Longrightarrow> new_events s s' = es"
  by (simp add: new_events_def)

text \<open>
  C4. When the starting Z position lies in \<open>[0, 600]\<close>, then at every moment of a motor
  test every position written to the log file and every position sent to the microtome has
  \<open>|x| \<le> 600\<close>, \<open>|y| \<le> 600\<close> and \<open>0 \<le> z \<le> 600\<close> (a negative Z is replaced by 0 and a
  position out of range by \<open>(0, 0, start_z)\<close> before it is logged or sent, see
  \<open>next_position_clamp\<close>); this holds for the finished run too, the move back to the
  starting Z included.
\<close>

theorem random_walk_positions_in_range:
  assumes "0 \<le> start_z d" and "start_z d \<le> 600"
  shows "list_all line_in_range (logfile (snd (random_walk_loop inputs (random_walk_start d))))
     \<and> list_all event_in_range (new_events d (snd (random_walk_loop inputs (random_walk_start d))))
     \<and> (\<forall>s. random_walk_thread inputs d = Some s \<longrightarrow>
           list_all line_in_range (logfile s)
           \<and> list_all event_in_range (new_events d (test_finished err_back s)))"
proof -
  let ?s = "snd (random_walk_loop inputs (random_walk_start d))"
  from random_walk_loop_in_range [of "random_walk_start d" inputs] assms
  obtain es where loop: "start_z ?s = start_z d" "list_all line_in_range (logfile ?s)"
      "events ?s = events d @ ProgressTrigger # es" "list_all event_in_range es"
    by (auto simp: random_walk_start_facts)
  have a: "list_all event_in_range (new_events d ?s)"
    using new_events_append [OF loop(3)] loop(4) by simp
  have b: "list_all line_in_range (logfile s)
           \<and> list_all event_in_range (new_events d (test_finished err_back s))"
    if "random_walk_thread inputs d = Some s" for s
  proof -
    from that have s: "s = emit FinishTrigger
          (?s\<lparr>logfile := logfile ?s @ [NumberOfErrors (number_errors ?s)]\<rparr>)"
      by (simp add: random_walk_thread_def Let_def split: if_splits)
    have "events (test_finished err_back s) =
        events d @ (ProgressTrigger # es @ [FinishTrigger, Log ''3VIEW: Motor test finished.'',
           Log ''3VIEW: Moving back to starting z position.'',
           Call (MoveStageToZNoSafeMode (start_z d))] @
           (if err_back > 0 then [Call ResetErrorState, Box ErrorMovingBack] else []) @
           [if test_aborted ?s then Box (MotorTestAborted (start_z d))
            else Box (MotorTestComplete (number_tests ?s) (number_errors ?s) (start_z d))])"
      using loop(1,3)
      by (simp add: s test_finished_def Let_def emit_def hw_call_def reset_error_state_def)
    from new_events_append [OF this] loop(2,4) assms show ?thesis
      by (simp add: s emit_def)
  qed
  from loop(2) a b show ?thesis by blast
qed

lemma random_walk_loop_error_count:
  assumes "number_errors (snd ps) = length (filter is_error_line (logfile (snd ps)))"
  shows "number_errors (snd (random_walk_loop inputs ps)) =
           length (filter is_error_line (logfile (snd (random_walk_loop inputs ps))))"
  using assms
proof (induction inputs arbitrary: ps)
  case Nil
  then show ?case by simp
next
  case (Cons i rest)
  have "number_errors (snd (walk_step i ps)) =
          length (filter is_error_line (logfile (snd (walk_step i ps))))"
    using Cons.prems by (simp add: walk_step_number_errors walk_step_logfile)
  from Cons.IH [OF this] Cons.prems show ?case by simp
qed

text \<open>
  C5. When the motor-test thread returns, the error counter equals the number of error lines
  (XY-move and Z-move errors) in the log file, and the last line of the file reports that
  count. The thread returns as soon as the time is up or Abort is pressed
  (\<open>random_walk_thread_returns\<close>).
\<close>

theorem random_walk_error_count:
  assumes "random_walk_thread inputs d = Some s"
  shows "number_errors s = length (filter is_error_line (logfile s))
     \<and> last (logfile s) = NumberOfErrors (number_errors s)"
proof -
  let ?s = "snd (random_walk_loop inputs (random_walk_start d))"
  from assms have s: "s = emit FinishTrigger
        (?s\<lparr>logfile := logfile ?s @ [NumberOfErrors (number_errors ?s)]\<rparr>)"
    by (simp add: random_walk_thread_def Let_def split: if_splits)
  have "number_errors ?s = length (filter is_error_line (logfile ?s))"
    by (rule random_walk_loop_error_count) (simp add: random_walk_start_facts)
  then show ?thesis by (simp add: s emit_def)
qed

lemma random_walk_loop_stopped: "\<not> test_in_progress (snd ps) \<Longrightarrow> random_walk_loop inputs ps = ps"
  by (cases inputs) simp_all

lemma random_walk_loop_stops:
  assumes "\<exists>i \<in> set inputs. abort_clicked i \<or> time_elapsed i"
  shows "\<not> test_in_progress (snd (random_walk_loop inputs ps))"
  using assms
proof (induction inputs arbitrary: ps)
  case Nil
  then show ?case by simp
next
  case (Cons i rest)
  show ?case
  proof (cases "test_in_progress (snd ps)")
    case False
    then show ?thesis by simp
  next
    case True
    show ?thesis
    proof (cases "abort_clicked i \<or> time_elapsed i")
      case True
      then have "\<not> test_in_progress (snd (walk_step i ps))"
        by (auto simp: walk_step_test_in_progress)
      then show ?thesis
        using \<open>test_in_progress (snd ps)\<close> by (simp add: random_walk_loop_stopped)
    next
      case False
      with Cons.prems have "\<exists>i \<in> set rest. abort_clicked i \<or> time_elapsed i" by auto
      from Cons.IH [OF this] \<open>test_in_progress (snd ps)\<close> show ?thesis by simp
    qed
  qed
qed

lemma random_walk_thread_returns:
  "\<exists>i \<in> set inputs. abort_clicked i \<or> time_elapsed i \<Longrightarrow> \<exists>s. random_walk_thread inputs d = Some s"
  using random_walk_loop_stops [of inputs "random_walk_start d"]
  by (simp add: random_walk_thread_def Let_def)

text \<open>
  C10. One iteration of the motor test appends the position and exactly one outcome line
  (OK, XY error or Z error) to the log file, raises the error counter by at most one and
  resets the register at most once; after an error of the XY move no Z move is made in
  that iteration.
\<close>

theorem walk_step_one_outcome:
  "logfile (snd (walk_step i ps)) =
     logfile (snd ps) @
       [Position (fst (next_position (number_tests (snd ps)) (start_z (snd ps)) i (fst ps)))
                 (fst (snd (next_position (number_tests (snd ps)) (start_z (snd ps)) i (fst ps))))
                 (snd (snd (next_position (number_tests (snd ps)) (start_z (snd ps)) i (fst ps)))),
        if err_xy i > 0 then ErrorDuringXYMove (info_xy i)
        else if err_z i > 0 then ErrorDuringZMove (info_z i) else OK]
   \<and> number_errors (snd (walk_step i ps)) =
       number_errors (snd ps) + (if err_xy i > 0 \<or> err_z i > 0 then 1 else 0)
   \<and> (err_xy i > 0 \<longrightarrow> filter is_z_move (new_events (snd ps) (snd (walk_step i ps))) = [])
   \<and> length (filter (\<lambda>e. e = Call ResetErrorState) (new_events (snd ps) (snd (walk_step i ps))))
       = (if err_xy i > 0 \<or> err_z i > 0 then 1 else 0)"
  using new_events_append [OF walk_step_events [of i ps]]
  by (simp add: walk_step_logfile walk_step_number_errors Let_def)


lemma sample_walk_stops: "\<exists>i \<in> set sample_walk. abort_clicked i \<or> time_elapsed i"
  by (simp add: sample_walk_def sample_z_fault_def sample_ok_def)

theorem random_walk_positions_in_range_witness:
  "0 \<le> start_z sample_motor_test \<and> start_z sample_motor_test \<le> 600 \<and>
   (\<exists>s. random_walk_thread sample_walk sample_motor_test = Some s \<and>
        list_all line_in_range (logfile s) \<and>
        list_all event_in_range (new_events sample_motor_test (test_finished 0 s)))"
proof -
  have z: "0 \<le> start_z sample_motor_test" "start_z sample_motor_test \<le> 600"
    by (simp_all add: sample_motor_test_def)
  obtain s where s: "random_walk_thread sample_walk sample_motor_test = Some s"
    using random_walk_thread_returns [OF sample_walk_stops] by blast
  with random_walk_positions_in_range [OF z, of sample_walk 0] z show ?thesis
    by blast
qed

theorem random_walk_error_count_witness:
  "\<exists>s. random_walk_thread sample_walk sample_motor_test = Some s \<and>
       number_errors s = 2 \<and> length (filter is_error_line (logfile s)) = 2 \<and>
       last (logfile s) = NumberOfErrors 2"
proof -
  obtain s where s: "random_walk_thread sample_walk sample_motor_test = Some s"
    using random_walk_thread_returns [OF sample_walk_stops] by blast
  have "number_errors s = 2"
    using s
    by (auto simp: random_walk_thread_def random_walk_start_def sample_walk_def Let_def
          walk_step_number_errors walk_step_test_in_progress emit_def
          sample_ok_def sample_xy_fault_def sample_z_fault_def sample_motor_test_def
          split: if_splits)
  with random_walk_error_count [OF s] s show ?thesis by auto
qed

theorem walk_step_one_outcome_witness:
  "err_xy sample_xy_fault > 0 \<and>
   logfile (snd (walk_step sample_xy_fault ((0, 0, 100), sample_motor_test))) =
     [Position 120 (-120) 100, ErrorDuringXYMove ''XY move failed''] \<and>
   number_errors (snd (walk_step sample_xy_fault ((0, 0, 100), sample_motor_test))) = 1 \<and>
   filter is_z_move
     (new_events sample_motor_test (snd (walk_step sample_xy_fault ((0, 0, 100), sample_motor_test))))
     = []"
  using walk_step_one_outcome [of sample_xy_fault "((0, 0, 100), sample_motor_test)"]
  by (simp add: sample_xy_fault_def sample_ok_def sample_motor_test_def next_position_def Let_def)

section \<open>Approach: faults and cleanup\<close>

lemma approach_cycle_None: "approach_cycle i None s = Inl TypeError"
  by (simp add: approach_cycle_def)

lemma approach_cycle_move_fault:
  assumes "err_move i > 0"
  shows "\<exists>z' s' es. approach_cycle i (Some z0) s = Inr (Break, Some z', s')
     \<and> slice_counter s' = slice_counter s \<and> max_slices s' = max_slices s
     \<and> thickness s' = thickness s \<and> z_mismatch s' = z_mismatch s
     \<and> approach_in_progress s' = approach_in_progress s
     \<and> aborted s' \<and> error_state s' = 0
     \<and> events s' = events s @ es \<and> shown_boxes es = [] \<and> Call ClearKnife \<notin> set es"
  using assms
  by (simp add: approach_cycle_def Let_def emit_def hw_call_def reset_error_state_def)

lemma approach_cycle_cut_fault:
  assumes "\<not> err_move i > 0" and "err_cut i > 0"
  shows "\<exists>z' s' es. approach_cycle i (Some z0) s = Inr (Break, Some z', s')
     \<and> slice_counter s' = slice_counter s \<and> max_slices s' = max_slices s
     \<and> thickness s' = thickness s \<and> z_mismatch s' = z_mismatch s
     \<and> approach_in_progress s' = approach_in_progress s
     \<and> aborted s' \<and> error_state s' = 0
     \<and> events s' = events s @ es \<and> shown_boxes es = [] \<and> Call ClearKnife \<notin> set es"
  using assms
  by (simp add: approach_cycle_def Let_def emit_def hw_call_def reset_error_state_def)

lemma approach_cycle_fault:
  assumes "err_move i > 0 \<or> err_cut i > 0"
  shows "\<exists>z' s' es. approach_cycle i (Some z0) s = Inr (Break, Some z', s')
     \<and> slice_counter s' = slice_counter s \<and> max_slices s' = max_slices s
     \<and> thickness s' = thickness s \<and> z_mismatch s' = z_mismatch s
     \<and> approach_in_progress s' = approach_in_progress s
     \<and> aborted s' \<and> error_state s' = 0
     \<and> events s' = events s @ es \<and> shown_boxes es = [] \<and> Call ClearKnife \<notin> set es"
  using assms approach_cycle_move_fault [of i z0 s] approach_cycle_cut_fault [of i z0 s]
  by blast

lemma approach_cycle_ok:
  assumes "\<not> err_move i > 0" and "\<not> err_cut i > 0"
  shows "\<exists>z' s' es. approach_cycle i (Some z0) s = Inr (Continue, Some z', s')
     \<and> slice_counter s' = slice_counter s + 1 \<and> max_slices s' = max_slices s
     \<and> thickness s' = thickness s \<and> z_mismatch s' = z_mismatch s
     \<and> approach_in_progress s' = approach_in_progress s
     \<and> aborted s' = (aborted s \<or> abort_requested i) \<and> error_state s' = err_cut i
     \<and> events s' = events s @ es \<and> shown_boxes es = [] \<and> Call ClearKnife \<notin> set es"
  using assms
  by (simp add: approach_cycle_def Let_def emit_def hw_call_def reset_error_state_def)


lemma approach_loop_exit:
  "\<not> (slice_counter s < max_slices s \<and> \<not> aborted s) \<Longrightarrow> approach_loop env z s = Inr s"
  by (subst approach_loop.simps) auto

lemma approach_loop_break:
  assumes "slice_counter s < max_slices s" and "\<not> aborted s"
    and "approach_cycle (env (slice_counter s)) z s = Inr (Break, z', s')"
  shows "approach_loop env z s = Inr s'"
  using assms by (subst approach_loop.simps) simp

lemma approach_loop_continue:
  assumes "slice_counter s < max_slices s" and "\<not> aborted s"
    and "approach_cycle (env (slice_counter s)) z s = Inr (Continue, z', s')"
  shows "approach_loop env z s = approach_loop env z' s'"
  using assms by (subst approach_loop.simps) simp

lemma approach_loop_quiet:
  assumes "aborted s \<or> z \<noteq> None"
  shows "\<exists>s' es. approach_loop env z s = Inr s' \<and> events s' = events s @ es
           \<and> shown_boxes es = [] \<and> Call ClearKnife \<notin> set es"
  using assms
proof (induction "max_slices s - slice_counter s" arbitrary: s z rule: less_induct)
  case less
  show ?case
  proof (cases "slice_counter s < max_slices s \<and> \<not> aborted s")
    case False
    then have "approach_loop env z s = Inr s" by (rule approach_loop_exit)
    then show ?thesis by simp
  next
    case True
    with less.prems obtain z0 where z: "z = Some z0" by auto
    let ?i = "env (slice_counter s)"
    show ?thesis
    proof (cases "err_move ?i > 0 \<or> err_cut ?i > 0")
      case True
      from approach_cycle_fault [OF this, of z0 s]
      obtain z' s' es where c: "approach_cycle ?i (Some z0) s = Inr (Break, Some z', s')"
          "events s' = events s @ es" "shown_boxes es = []" "Call ClearKnife \<notin> set es"
        by blast
      have "approach_loop env z s = Inr s'"
        using \<open>slice_counter s < max_slices s \<and> \<not> aborted s\<close> c(1) z
        by (auto intro: approach_loop_break)
      with c show ?thesis by blast
    next
      case False
      then have "\<not> err_move ?i > 0" "\<not> err_cut ?i > 0" by auto
      from approach_cycle_ok [OF this, of z0 s]
      obtain z' s' es where c: "approach_cycle ?i (Some z0) s = Inr (Continue, Some z', s')"
          "slice_counter s' = slice_counter s + 1" "max_slices s' = max_slices s"
          "events s' = events s @ es" "shown_boxes es = []" "Call ClearKnife \<notin> set es"
        by blast
      have step: "approach_loop env z s = approach_loop env (Some z') s'"
        using \<open>slice_counter s < max_slices s \<and> \<not> aborted s\<close> c(1) z
        by (auto intro: approach_loop_continue)
      have "max_slices s' - slice_counter s' < max_slices s - slice_counter s"
        using \<open>slice_counter s < max_slices s \<and> \<not> aborted s\<close> c(2,3) by auto
      from less.hyps [OF this, of "Some z'"]
      obtain s'' es' where r: "approach_loop env (Some z') s' = Inr s''"
          "events s'' = events s' @ es'" "shown_boxes es' = []" "Call ClearKnife \<notin> set es'"
        by auto
      have sb: "shown_boxes (es @ es') = []"
        using c(5) r(3) by (induction es rule: shown_boxes.induct) simp_all
      have "events s'' = events s @ (es @ es')" using r(2) c(4) by simp
      moreover have "Call ClearKnife \<notin> set (es @ es')" using c(6) r(4) by simp
      ultimately show ?thesis using step r(1) sb by metis
    qed
  qed
qed

lemma approach_loop_clean_then_fault:
  assumes "slice_counter s + n = k" and "k < max_slices s" and "\<not> aborted s"
    and "\<forall>m. slice_counter s \<le> m \<and> m < k \<longrightarrow>
           \<not> err_move (env m) > 0 \<and> \<not> err_cut (env m) > 0 \<and> \<not> abort_requested (env m)"
    and "err_move (env k) > 0 \<or> err_cut (env k) > 0"
  shows "\<exists>s'. approach_loop env (Some z0) s = Inr s' \<and> slice_counter s' = k \<and> aborted s'
     \<and> z_mismatch s' = z_mismatch s \<and> error_state s' = 0 \<and> max_slices s' = max_slices s
     \<and> thickness s' = thickness s"
  using assms
proof (induction n arbitrary: s z0)
  case 0
  then have k: "slice_counter s = k" by simp
  from approach_cycle_fault [of "env k" z0 s] "0.prems"(5)
  obtain z' s' where c: "approach_cycle (env k) (Some z0) s = Inr (Break, Some z', s')"
      "slice_counter s' = slice_counter s" "max_slices s' = max_slices s"
      "thickness s' = thickness s" "z_mismatch s' = z_mismatch s" "aborted s'"
      "error_state s' = 0"
    by blast
  have "approach_loop env (Some z0) s = Inr s'"
    using "0.prems"(2,3) c(1) k by (auto intro: approach_loop_break)
  with c k show ?case by auto
next
  case (Suc n)
  let ?i = "env (slice_counter s)"
  from Suc.prems(1) have lt: "slice_counter s < k" by simp
  with Suc.prems(4) have ok: "\<not> err_move ?i > 0" "\<not> err_cut ?i > 0" "\<not> abort_requested ?i"
    by auto
  from approach_cycle_ok [OF ok(1,2), of z0 s] ok(3) Suc.prems(3)
  obtain z' s' where c: "approach_cycle ?i (Some z0) s = Inr (Continue, Some z', s')"
      "slice_counter s' = slice_counter s + 1" "max_slices s' = max_slices s"
      "thickness s' = thickness s" "z_mismatch s' = z_mismatch s" "\<not> aborted s'"
    by auto
  have step: "approach_loop env (Some z0) s = approach_loop env (Some z') s'"
    using lt Suc.prems(2,3) c(1) by (auto intro: approach_loop_continue)
  have "\<exists>s''. approach_loop env (Some z') s' = Inr s'' \<and> slice_counter s'' = k \<and> aborted s''
     \<and> z_mismatch s'' = z_mismatch s' \<and> error_state s'' = 0 \<and> max_slices s'' = max_slices s'
     \<and> thickness s'' = thickness s'"
  proof (rule Suc.IH)
    show "slice_counter s' + n = k" using c(2) Suc.prems(1) by simp
    show "k < max_slices s'" using c(3) Suc.prems(2) by simp
    show "\<not> aborted s'" by (rule c(6))
    show "\<forall>m. slice_counter s' \<le> m \<and> m < k \<longrightarrow>
           \<not> err_move (env m) > 0 \<and> \<not> err_cut (env m) > 0 \<and> \<not> abort_requested (env m)"
      using Suc.prems(4) c(2) by auto
    show "err_move (env k) > 0 \<or> err_cut (env k) > 0" by (rule Suc.prems(5))
  qed
  with step c show ?case by auto
qed


lemma approach_prepare_quiet:
  "\<exists>es. events (snd (approach_prepare prep d)) = events d @ es
        \<and> shown_boxes es = [] \<and> Call ClearKnife \<notin> set es"
  by (simp add: approach_prepare_def Let_def emit_def hw_call_def reset_error_state_def)

lemma approach_prepare_z:
  "aborted (snd (approach_prepare prep d)) \<or> fst (approach_prepare prep d) \<noteq> None"
  by (auto simp: approach_prepare_def Let_def emit_def hw_call_def reset_error_state_def
        unusable_z_def split: option.splits)

lemma approach_prepare_enters_loop:
  assumes "enters_loop prep"
  shows "\<exists>z0. fst (approach_prepare prep d) = Some z0"
    and "slice_counter (snd (approach_prepare prep d)) = 0"
    and "\<not> aborted (snd (approach_prepare prep d))"
    and "\<not> z_mismatch (snd (approach_prepare prep d))"
    and "max_slices (snd (approach_prepare prep d)) = spinBox_numberSlices prep"
    and "thickness (snd (approach_prepare prep d)) = spinBox_thickness prep"
  using assms
  by (auto simp: enters_loop_def approach_prepare_def Let_def emit_def hw_call_def
        reset_error_state_def unusable_z_def split: option.splits if_splits)

lemma approach_thread_fault:
  assumes "enters_loop prep" and "1 \<le> k" and "k \<le> spinBox_numberSlices prep"
    and "\<forall>m < k - 1. \<not> err_move (env m) > 0 \<and> \<not> err_cut (env m) > 0 \<and> \<not> abort_requested (env m)"
    and "err_move (env (k - 1)) > 0 \<or> err_cut (env (k - 1)) > 0"
  shows "\<exists>s. approach_thread prep env d = Inr s \<and> slice_counter s = k - 1 \<and> aborted s
     \<and> \<not> z_mismatch s \<and> thickness s = spinBox_thickness prep \<and> error_state s = 0"
proof -
  let ?z = "fst (approach_prepare prep d)" and ?s = "snd (approach_prepare prep d)"
  note p = approach_prepare_enters_loop [OF assms(1), of d]
  from p(1) obtain z0 where z: "?z = Some z0" by blast
  have "\<exists>s'. approach_loop env (Some z0) ?s = Inr s' \<and> slice_counter s' = k - 1 \<and> aborted s'
     \<and> z_mismatch s' = z_mismatch ?s \<and> error_state s' = 0 \<and> max_slices s' = max_slices ?s
     \<and> thickness s' = thickness ?s"
  proof (rule approach_loop_clean_then_fault [where n = "k - 1"])
    show "slice_counter ?s + (k - 1) = k - 1" using p(2) by simp
    show "k - 1 < max_slices ?s" using p(5) assms(2,3) by simp
    show "\<not> aborted ?s" by (rule p(3))
    show "\<forall>m. slice_counter ?s \<le> m \<and> m < k - 1 \<longrightarrow>
            \<not> err_move (env m) > 0 \<and> \<not> err_cut (env m) > 0 \<and> \<not> abort_requested (env m)"
      using assms(4) by simp
    show "err_move (env (k - 1)) > 0 \<or> err_cut (env (k - 1)) > 0" by (rule assms(5))
  qed
  then obtain s' where l: "approach_loop env (Some z0) ?s = Inr s'" "slice_counter s' = k - 1"
      "aborted s'" "z_mismatch s' = z_mismatch ?s" "error_state s' = 0"
      "thickness s' = thickness ?s"
    by blast
  have "approach_thread prep env d = Inr (emit FinishTrigger s')"
    using l(1) z by (simp add: approach_thread_def)
  moreover have "slice_counter (emit FinishTrigger s') = k - 1" "aborted (emit FinishTrigger s')"
    "\<not> z_mismatch (emit FinishTrigger s')"
    "thickness (emit FinishTrigger s') = spinBox_thickness prep"
    "error_state (emit FinishTrigger s') = 0"
    using l(2-6) p(4,6) by (simp_all add: emit_def)
  ultimately show ?thesis by blast
qed

lemma sample_fault_run:
  "\<exists>s. approach_thread sample_setup fault_206_in_cycle_3 sample_approach = Inr s
       \<and> slice_counter s = 2 \<and> aborted s \<and> \<not> z_mismatch s \<and> thickness s = 50
       \<and> error_state s = 0"
proof -
  have a: "enters_loop sample_setup" "(1::nat) \<le> 3" "3 \<le> spinBox_numberSlices sample_setup"
    by (simp_all add: enters_loop_def sample_setup_def unusable_z_def)
  have c: "\<forall>m < 3 - 1. \<not> err_move (fault_206_in_cycle_3 m) > 0
      \<and> \<not> err_cut (fault_206_in_cycle_3 m) > 0 \<and> \<not> abort_requested (fault_206_in_cycle_3 m)"
    by (simp add: fault_206_in_cycle_3_def)
  have f: "err_move (fault_206_in_cycle_3 (3 - 1)) > 0 \<or> err_cut (fault_206_in_cycle_3 (3 - 1)) > 0"
    by (simp add: fault_206_in_cycle_3_def)
  have t: "spinBox_thickness sample_setup = 50" by (simp add: sample_setup_def)
  from approach_thread_fault [OF a c f, of sample_approach] show ?thesis
    by (simp add: t)
qed

lemma approach_thread_206_after_z_read:
  assumes "\<not> unusable_z (z_first prep)" and "err_first prep = 206"
  shows "\<exists>s. approach_thread prep env d = Inr s
           \<and> approach_summary s = (0, True, True, ZPositionMismatch)"
proof -
  let ?z = "fst (approach_prepare prep d)" and ?s = "snd (approach_prepare prep d)"
  have p: "aborted ?s" "z_mismatch ?s" "slice_counter ?s = 0"
    using assms
    by (simp_all add: approach_prepare_def Let_def emit_def hw_call_def reset_error_state_def)
  then have "approach_loop env ?z ?s = Inr ?s"
    by (auto intro: approach_loop_exit)
  then have "approach_thread prep env d = Inr (emit FinishTrigger ?s)"
    by (simp add: approach_thread_def)
  moreover have "approach_summary (emit FinishTrigger ?s) = (0, True, True, ZPositionMismatch)"
    using p by (simp add: approach_summary_def outcome_box_def emit_def)
  ultimately show ?thesis by blast
qed

text \<open>
  C3, as the code has it. In an approach that has entered its loop, let the first fault (a
  register above 0 after the Z move or after the cut, error 206 included) occur in cycle
  \<open>k\<close>, with no Abort before. Then the thread returns with the slice counter at \<open>k - 1\<close>,
  \<open>aborted\<close> set, \<open>z_mismatch\<close> not set and the register reset, and the run is reported
  with the box for an aborted approach that names \<open>k - 1\<close> slices. A Z-position mismatch is
  reported only for error 206 in the register after the read of the Z position, before the
  loop (\<open>approach_thread_206_after_z_read\<close>).
\<close>

theorem approach_thread_fault_halts:
  assumes "enters_loop prep" and "1 \<le> k" and "k \<le> spinBox_numberSlices prep"
    and "\<forall>m < k - 1. \<not> err_move (env m) > 0 \<and> \<not> err_cut (env m) > 0 \<and> \<not> abort_requested (env m)"
    and "err_move (env (k - 1)) > 0 \<or> err_cut (env (k - 1)) > 0"
  shows "\<exists>s. approach_thread prep env d = Inr s
     \<and> approach_summary s =
         (k - 1, True, False,
          ApproachAborted (k - 1) (of_int (int (k - 1) * spinBox_thickness prep) / 1000))
     \<and> error_state s = 0"
proof -
  from approach_thread_fault [OF assms, of d]
  obtain s where s: "approach_thread prep env d = Inr s" "slice_counter s = k - 1" "aborted s"
      "\<not> z_mismatch s" "thickness s = spinBox_thickness prep" "error_state s = 0"
    by blast
  have "outcome_box s =
      ApproachAborted (k - 1) (of_int (int (k - 1) * spinBox_thickness prep) / 1000)"
    using s(2-5) by (simp add: outcome_box_def)
  with s show ?thesis by (simp add: approach_summary_def)
qed

lemma sample_setup_enters_loop: "enters_loop sample_setup"
  by (simp add: enters_loop_def sample_setup_def unusable_z_def)

lemma fault_206_in_cycle_3_facts:
  "\<forall>m < 3 - 1. \<not> err_move (fault_206_in_cycle_3 m) > 0 \<and> \<not> err_cut (fault_206_in_cycle_3 m) > 0
      \<and> \<not> abort_requested (fault_206_in_cycle_3 m)"
  "err_move (fault_206_in_cycle_3 (3 - 1)) = 206"
  by (simp_all add: fault_206_in_cycle_3_def)

theorem approach_thread_fault_halts_witness:
  "enters_loop sample_setup \<and> (1::nat) \<le> 3 \<and> 3 \<le> spinBox_numberSlices sample_setup \<and>
   err_move (fault_206_in_cycle_3 2) > 0 \<and>
   (\<exists>s. approach_thread sample_setup fault_206_in_cycle_3 sample_approach = Inr s
     \<and> approach_summary s = (2, True, False, ApproachAborted 2 (1 / 10))
     \<and> error_state s = 0)"
proof -
  have a: "(1::nat) \<le> 3" "3 \<le> spinBox_numberSlices sample_setup"
    by (simp_all add: sample_setup_def)
  have f: "err_move (fault_206_in_cycle_3 (3 - 1)) > 0 \<or> err_cut (fault_206_in_cycle_3 (3 - 1)) > 0"
    by (simp add: fault_206_in_cycle_3_def)
  have t: "spinBox_thickness sample_setup = 50" by (simp add: sample_setup_def)
  have g: "err_move (fault_206_in_cycle_3 2) > 0" by (simp add: fault_206_in_cycle_3_def)
  from approach_thread_fault_halts [OF sample_setup_enters_loop a fault_206_in_cycle_3_facts(1) f,
      of sample_approach]
  have "\<exists>s. approach_thread sample_setup fault_206_in_cycle_3 sample_approach = Inr s
     \<and> approach_summary s = (2, True, False, ApproachAborted 2 (1 / 10))
     \<and> error_state s = 0"
    by (simp add: t)
  with sample_setup_enters_loop a g show ?thesis by blast
qed

text \<open>
  C3 as stated does not hold: with error 206 after the Z move of cycle 3 of 5 the counter
  ends at 2, but the run is reported as an aborted approach, not as a Z-position mismatch.
\<close>

theorem approach_206_in_loop_not_z_mismatch:
  "err_move (fault_206_in_cycle_3 2) = 206 \<and>
   map_sum id approach_summary
     (approach_thread sample_setup fault_206_in_cycle_3 sample_approach)
     = Inr (2, True, False, ApproachAborted 2 (1 / 10)) \<and>
   map_sum id outcome_box
     (approach_thread sample_setup fault_206_in_cycle_3 sample_approach)
     \<noteq> Inr ZPositionMismatch"
proof -
  from sample_fault_run
  obtain s where s: "approach_thread sample_setup fault_206_in_cycle_3 sample_approach = Inr s"
      "slice_counter s = 2" "aborted s" "\<not> z_mismatch s" "thickness s = 50"
    by blast
  have "outcome_box s = ApproachAborted 2 (1 / 10)"
    using s(2-5) by (simp add: outcome_box_def)
  with s show ?thesis by (simp add: approach_summary_def fault_206_in_cycle_3_def)
qed

lemma shown_boxes_append: "shown_boxes (xs @ ys) = shown_boxes xs @ shown_boxes ys"
  by (induction xs rule: shown_boxes.induct) simp_all

lemma approach_thread_quiet:
  "\<exists>s es. approach_thread prep env d = Inr s \<and> events s = events d @ es
        \<and> shown_boxes es = [] \<and> Call ClearKnife \<notin> set es"
proof -
  let ?z = "fst (approach_prepare prep d)" and ?s = "snd (approach_prepare prep d)"
  obtain es where p: "events ?s = events d @ es" "shown_boxes es = []"
      "Call ClearKnife \<notin> set es"
    using approach_prepare_quiet [of prep d] by blast
  obtain s' es' where l: "approach_loop env ?z ?s = Inr s'" "events s' = events ?s @ es'"
      "shown_boxes es' = []" "Call ClearKnife \<notin> set es'"
    using approach_loop_quiet [of ?s ?z env, OF approach_prepare_z] by blast
  have "approach_thread prep env d = Inr (emit FinishTrigger s')"
    using l(1) by (simp add: approach_thread_def)
  moreover have "events (emit FinishTrigger s') = events d @ (es @ es' @ [FinishTrigger])"
    using p(1) l(2) by (simp add: emit_def)
  moreover have "shown_boxes (es @ es' @ [FinishTrigger]) = []"
    using p(2) l(3) by (simp add: shown_boxes_append)
  moreover have "Call ClearKnife \<notin> set (es @ es' @ [FinishTrigger])"
    using p(3) l(4) by simp
  ultimately show ?thesis by blast
qed

lemma finish_approach_events:
  "events (finish_approach c s) =
     events s @ [Log ''3VIEW: Clearing knife.'', Call ClearKnife] @
       (if c > 0 then [Log ''CTRL: Error clearing knife.'', Call ResetErrorState,
                       Box ClearingKnifeFailed] else []) @
       [MainWindow ''STATUS IDLE''] @
       (if aborted s \<and> z_mismatch s then [Call ResetErrorState] else []) @
       [Box (outcome_box s)]"
  by (simp add: finish_approach_def Let_def emit_def hw_call_def reset_error_state_def
        outcome_box_def)

lemma finish_approach_error_state:
  "error_state (finish_approach c s) = (if c > 0 \<or> (aborted s \<and> z_mismatch s) then 0 else c)"
  by (simp add: finish_approach_def Let_def emit_def hw_call_def reset_error_state_def)

text \<open>
  C8. Every approach run, whatever the environment does, leaves its loop without an
  exception and then clears the knife exactly once. The boxes shown are the box that
  reports the run as the thread left it (finished, aborted with the number of slices, or
  Z-position mismatch), preceded by the box for a failed clearing exactly when the register
  is above 0 after the clearing; in that case the failure is also logged and the register
  is reset.
\<close>

theorem approach_run_clears_knife_once:
  "\<exists>s. approach_thread prep env d = Inr s
     \<and> approach_run prep env err_clear d = Inr (finish_approach err_clear s)
     \<and> length (filter (\<lambda>e. e = Call ClearKnife) (new_events d (finish_approach err_clear s))) = 1
     \<and> shown_boxes (new_events d (finish_approach err_clear s)) =
         (if err_clear > 0 then [ClearingKnifeFailed] else []) @ [outcome_box s]
     \<and> (err_clear > 0 \<longrightarrow>
          error_state (finish_approach err_clear s) = 0
          \<and> Log ''CTRL: Error clearing knife.'' \<in> set (new_events d (finish_approach err_clear s)))"
proof -
  obtain s es where t: "approach_thread prep env d = Inr s" "events s = events d @ es"
      "shown_boxes es = []" "Call ClearKnife \<notin> set es"
    using approach_thread_quiet [of prep env d] by blast
  let ?f = "finish_approach err_clear s"
  let ?tail = "[Log ''3VIEW: Clearing knife.'', Call ClearKnife] @
       (if err_clear > 0 then [Log ''CTRL: Error clearing knife.'', Call ResetErrorState,
                       Box ClearingKnifeFailed] else []) @
       [MainWindow ''STATUS IDLE''] @
       (if aborted s \<and> z_mismatch s then [Call ResetErrorState] else []) @
       [Box (outcome_box s)]"
  have "events ?f = events d @ (es @ ?tail)"
    using t(2) by (simp add: finish_approach_events)
  then have n: "new_events d ?f = es @ ?tail"
    by (simp add: new_events_def)
  have f: "filter (\<lambda>e. e = Call ClearKnife) es = []"
    using t(4) by (auto simp: filter_empty_conv)
  have r: "approach_run prep env err_clear d = Inr ?f"
    using t(1) by (simp add: approach_run_def)
  have c1: "length (filter (\<lambda>e. e = Call ClearKnife) (new_events d ?f)) = 1"
    unfolding n using f by simp
  have c2: "shown_boxes (new_events d ?f) =
         (if err_clear > 0 then [ClearingKnifeFailed] else []) @ [outcome_box s]"
    unfolding n using t(3) by (simp add: shown_boxes_append)
  have c3: "err_clear > 0 \<longrightarrow> error_state ?f = 0
          \<and> Log ''CTRL: Error clearing knife.'' \<in> set (new_events d ?f)"
    unfolding n by (simp add: finish_approach_error_state)
  from t(1) r c1 c2 c3 show ?thesis by blast
qed

theorem approach_run_clears_knife_once_witness:
  "(7::int) > 0 \<and>
   (\<exists>s. approach_run sample_setup fault_206_in_cycle_3 7 sample_approach = Inr s
      \<and> length (filter (\<lambda>e. e = Call ClearKnife) (new_events sample_approach s)) = 1
      \<and> shown_boxes (new_events sample_approach s) =
          [ClearingKnifeFailed, ApproachAborted 2 (1 / 10)]
      \<and> error_state s = 0)"
proof -
  from sample_fault_run
  obtain s0 where s0: "approach_thread sample_setup fault_206_in_cycle_3 sample_approach = Inr s0"
      "slice_counter s0 = 2" "aborted s0" "\<not> z_mismatch s0" "thickness s0 = 50"
    by blast
  have o: "outcome_box s0 = ApproachAborted 2 (1 / 10)"
    using s0(2-5) by (simp add: outcome_box_def)
  from approach_run_clears_knife_once [of sample_setup fault_206_in_cycle_3 sample_approach 7]
    s0(1) o
  show ?thesis by auto
qed

end
